theory Spec2Isabelle
  imports Complex_Main "HOL-Library.Word"
begin

section \<open>The gallery worker: admission and fulfilment pipeline\<close>

text \<open>
  A shallow embedding of the \<^verbatim>\<open>fetch\<close> handler of \<^verbatim>\<open>src/worker.js\<close> and of
  the CORS preflight branch that the second worker source puts in front of the same
  pipeline. The handler is one JavaScript function with numbered stages
  (\<^verbatim>\<open>// 0) Request size validation\<close> ... \<^verbatim>\<open>// 9) Return URLs\<close>); every stage is a
  definition here and \<open>handle_generate\<close> chains them in the order of the source.

  Strings are lists of 8-bit characters, read as the UTF-16 code units 0..255 of a
  JavaScript string (Latin-1); \<^verbatim>\<open>length\<close>, \<^verbatim>\<open>includes\<close>, \<^verbatim>\<open>trim\<close> and
  \<^verbatim>\<open>toLowerCase\<close> are modelled on that range.
\<close>

subsection \<open>JavaScript string operations\<close>

text \<open>\<^verbatim>\<open>s.startsWith(p)\<close>.\<close>

fun startsWith :: "string \<Rightarrow> string \<Rightarrow> bool" where
  "startsWith s [] = True"
| "startsWith [] (p # ps) = False"
| "startsWith (c # cs) (p # ps) = (c = p \<and> startsWith cs ps)"

text \<open>\<^verbatim>\<open>s.includes(sub)\<close>: \<open>sub\<close> occurs in \<open>s\<close> as a contiguous substring.\<close>

fun str_includes :: "string \<Rightarrow> string \<Rightarrow> bool" where
  "str_includes [] sub = (sub = [])"
| "str_includes (c # cs) sub = (startsWith (c # cs) sub \<or> str_includes cs sub)"

text \<open>
  The white space and line terminators that \<^verbatim>\<open>trim\<close> and \<^verbatim>\<open>parseInt\<close> strip, among
  the code units below 256: TAB, LF, VT, FF, CR, SPACE and NO-BREAK SPACE.
\<close>

definition is_ws :: "char \<Rightarrow> bool" where
  "is_ws c = (c = CHR 0x09 \<or> c = CHR 0x0A \<or> c = CHR 0x0B \<or> c = CHR 0x0C \<or> c = CHR 0x0D
              \<or> c = CHR 0x20 \<or> c = CHR 0xA0)"

definition trim :: "string \<Rightarrow> string" where
  "trim s = rev (dropWhile is_ws (rev (dropWhile is_ws s)))"

text \<open>
  \<^verbatim>\<open>toLowerCase\<close> on the code units below 256: A-Z and the Latin-1 capitals
  U+00C0..U+00DE (without the multiplication sign U+00D7) move up by 32, every other
  code unit stays.
\<close>

definition upper_case :: "char list" where
  "upper_case = ''ABCDEFGHIJKLMNOPQRSTUVWXYZ'' @
     [CHR 0xC0, CHR 0xC1, CHR 0xC2, CHR 0xC3, CHR 0xC4, CHR 0xC5, CHR 0xC6, CHR 0xC7,
      CHR 0xC8, CHR 0xC9, CHR 0xCA, CHR 0xCB, CHR 0xCC, CHR 0xCD, CHR 0xCE, CHR 0xCF,
      CHR 0xD0, CHR 0xD1, CHR 0xD2, CHR 0xD3, CHR 0xD4, CHR 0xD5, CHR 0xD6,
      CHR 0xD8, CHR 0xD9, CHR 0xDA, CHR 0xDB, CHR 0xDC, CHR 0xDD, CHR 0xDE]"

definition lower_case :: "char list" where
  "lower_case = ''abcdefghijklmnopqrstuvwxyz'' @
     [CHR 0xE0, CHR 0xE1, CHR 0xE2, CHR 0xE3, CHR 0xE4, CHR 0xE5, CHR 0xE6, CHR 0xE7,
      CHR 0xE8, CHR 0xE9, CHR 0xEA, CHR 0xEB, CHR 0xEC, CHR 0xED, CHR 0xEE, CHR 0xEF,
      CHR 0xF0, CHR 0xF1, CHR 0xF2, CHR 0xF3, CHR 0xF4, CHR 0xF5, CHR 0xF6,
      CHR 0xF8, CHR 0xF9, CHR 0xFA, CHR 0xFB, CHR 0xFC, CHR 0xFD, CHR 0xFE]"

definition lower_char :: "char \<Rightarrow> char" where
  "lower_char c = (case map_of (zip upper_case lower_case) c of Some d \<Rightarrow> d | None \<Rightarrow> c)"

definition toLowerCase :: "string \<Rightarrow> string" where
  "toLowerCase s = map lower_char s"

text \<open>\<^verbatim>\<open>String(n)\<close> for a non-negative integer.\<close>

fun String_of_nat :: "nat \<Rightarrow> string" where
  "String_of_nat n =
     (if n < 10 then [''0123456789'' ! n]
      else String_of_nat (n div 10) @ [''0123456789'' ! (n mod 10)])"

declare String_of_nat.simps [simp del]

text \<open>
  \<^verbatim>\<open>parseInt(s)\<close> without a radix: leading white space is skipped, a sign is read, a
  \<^verbatim>\<open>0x\<close> prefix selects base 16, and the longest prefix of digits is the value; with no
  digit the result is NaN, here \<open>None\<close>. Only the comparison with 10000 is taken of the
  value, which rounding to a double does not change.
\<close>

definition digit_value :: "char \<Rightarrow> nat option" where
  "digit_value c = map_of (zip ''0123456789abcdefABCDEF''
     [0, 1, 2, 3, 4, 5, 6, 7, 8, 9, 10, 11, 12, 13, 14, 15, 10, 11, 12, 13, 14, 15]) c"

definition is_digit :: "nat \<Rightarrow> char \<Rightarrow> bool" where
  "is_digit radix c = (case digit_value c of None \<Rightarrow> False | Some d \<Rightarrow> d < radix)"

definition digits_value :: "nat \<Rightarrow> string \<Rightarrow> int option" where
  "digits_value radix s =
     (let ds = takeWhile (is_digit radix) s
      in if ds = [] then None
         else Some (int (foldl (\<lambda>acc c. acc * radix + the (digit_value c)) 0 ds)))"

definition parseInt :: "string \<Rightarrow> int option" where
  "parseInt s =
     (let s1 = dropWhile is_ws s;
          negative = startsWith s1 ''-'';
          s2 = (if startsWith s1 ''-'' \<or> startsWith s1 ''+'' then tl s1 else s1);
          magnitude = (if startsWith s2 ''0x'' \<or> startsWith s2 ''0X''
                       then digits_value 16 (drop 2 s2) else digits_value 10 s2)
      in map_option (\<lambda>m. if negative then - m else m) magnitude)"

subsection \<open>Requests, responses and the environment\<close>

text \<open>
  The value \<^verbatim>\<open>request.json()\<close> resolves to. The members of an object are its
  properties, each key once; a number is the parsed value, of which the handler only
  tests whether it is zero.
\<close>

datatype json =
  JNull | JBool bool | JNumber rat | JString string | JArray "json list"
  | JObject "(string \<times> json) list"

text \<open>
  A request as the handler reads it: the method, the parts of \<^verbatim>\<open>new URL(request.url)\<close>,
  the five headers it looks up (\<open>None\<close> where \<^verbatim>\<open>headers.get\<close> gives \<^verbatim>\<open>null\<close>) and the
  outcome of \<^verbatim>\<open>request.json()\<close> (\<open>None\<close> where it rejects).
\<close>

record request =
  http_method :: string
  url_protocol :: string
  url_host :: string
  url_pathname :: string
  content_length :: "string option"
  origin :: "string option"
  referer :: "string option"
  x_api_key :: "string option"
  cf_connecting_ip :: "string option"
  json_body :: "json option"

type_synonym bytes = "8 word list"

text \<open>
  A response body: \<^verbatim>\<open>JSON.stringify\<close> of an object of string fields, a plain text, the
  stored bytes, the embedded \<^verbatim>\<open>HTML\<close> document, or \<^verbatim>\<open>null\<close>.
\<close>

datatype body = Json "(string \<times> string) list" | Text string | Bytes bytes | Document | NoBody

record response =
  status :: nat
  headers :: "(string \<times> string) list"
  body :: body

datatype js_error = TypeError "string option" | Error "string option"

fun message :: "js_error \<Rightarrow> string option" where
  "message (TypeError m) = m"
| "message (Error m) = m"

text \<open>The bindings of \<^verbatim>\<open>env\<close> that the handler tests; \<open>None\<close> is an unset binding.\<close>

record env =
  DEMO_API_KEY :: "string option"
  UPSTASH_REDIS_REST_URL :: "string option"
  UPSTASH_REDIS_REST_TOKEN :: "string option"

text \<open>Truthiness of a string-or-missing value.\<close>

fun truthy :: "string option \<Rightarrow> bool" where
  "truthy None = False"
| "truthy (Some s) = (s \<noteq> [])"

subsection \<open>Numbers of the spend ledger\<close>

text \<open>
  The ledger holds IEEE 754 binary64 numbers. A non-negative double that is a multiple of
  \<open>2\<^sup>-\<^sup>6\<^sup>0\<close> is represented by its numerator \<open>n\<close>, standing for \<open>n / 2\<^sup>6\<^sup>0\<close>: zero and every
  double from \<open>2\<^sup>-\<^sup>8\<close> upwards is of this form, so are 0.004, 10 and all their sums.
  The sum of two such doubles is their exact sum rounded to 53 significant bits, ties to
  even; \<open>excess_bits n\<close> counts the bits of \<open>n\<close> beyond 53, and 9007199254740992 is
  \<open>2\<^sup>5\<^sup>3\<close>. \<^verbatim>\<open>String\<close> prints the shortest decimal that reads back as the same double,
  so \<^verbatim>\<open>parseFloat(String(x))\<close> is \<open>x\<close> and the ledger is modelled as holding the number.
\<close>

type_synonym double = nat

fun excess_bits :: "nat \<Rightarrow> nat" where
  "excess_bits n = (if n < 9007199254740992 then 0 else Suc (excess_bits (n div 2)))"

declare excess_bits.simps [simp del]

definition round53 :: "nat \<Rightarrow> nat" where
  "round53 n =
     (let k = excess_bits n; q = n div 2 ^ k; r = n mod 2 ^ k
      in if k = 0 then n
         else if 2 ^ (k - 1) < r \<or> (r = 2 ^ (k - 1) \<and> odd q) then (q + 1) * 2 ^ k
         else q * 2 ^ k)"

definition fl_add :: "double \<Rightarrow> double \<Rightarrow> double" where
  "fl_add a b = round53 (a + b)"

text \<open>\<^verbatim>\<open>DAILY_SPENDING_CAP: 10.00\<close> and \<^verbatim>\<open>costPerImage = 0.004\<close>, the nearest double.\<close>

definition DAILY_SPENDING_CAP :: double where
  "DAILY_SPENDING_CAP = 10 * 2 ^ 60"

definition costPerImage :: double where
  "costPerImage = 4611686018427388"

definition MAX_PROMPT_LENGTH :: nat where "MAX_PROMPT_LENGTH = 500"
definition MIN_PROMPT_LENGTH :: nat where "MIN_PROMPT_LENGTH = 3"
definition MAX_REQUEST_SIZE :: int where "MAX_REQUEST_SIZE = 10000"
definition GLOBAL_RATE_LIMIT :: nat where "GLOBAL_RATE_LIMIT = 100"

definition BLOCKED_WORDS :: "string list" where
  "BLOCKED_WORDS =
     [''nude'', ''nsfw'', ''naked'', ''porn'', ''xxx'', ''sex'', ''explicit'',
      ''gore'', ''violence'', ''kill'', ''death'', ''suicide'', ''weapon'']"

subsection \<open>The stores and the outside world\<close>

text \<open>
  Every place where the handler calls a collaborator or reads the clock, by its line in
  \<^verbatim>\<open>src/worker.js\<close>: \<^verbatim>\<open>ipLimiter.limit\<close> (64), \<^verbatim>\<open>globalLimiter.limit\<close> (86), the
  dates of lines 98, 184 and 196, \<^verbatim>\<open>redis.get\<close> (100 and 189), \<^verbatim>\<open>redis.set\<close> (190),
  the two \<^verbatim>\<open>env.ART.put\<close> (202 and 209), \<^verbatim>\<open>env.ART.get\<close> (269) and the date of
  line 290.
\<close>

datatype site =
  IpLimit | GlobalLimit | BudgetDate | BudgetRead | LedgerDate | LedgerRead | LedgerWrite
  | StoreDate | PutHistory | PutLatest | ArtGet | HealthDate

text \<open>The calls made to the collaborators, logged in the order they are issued.\<close>

datatype call =
  CallLimit string string | CallRedisGet string | CallRedisSet string double
  | CallGenerate string | CallPut string bytes | CallGet string

record r2object =
  object_body :: bytes
  contentType :: string
  cacheControl :: string
  httpEtag :: string

text \<open>
  The state that outlives a request: the rate-limit windows and the keys of the counter
  store, the bucket \<^verbatim>\<open>env.ART\<close>, and the log of calls.
\<close>

record state =
  counters :: "string \<times> string \<times> nat \<Rightarrow> nat"
  redis :: "string \<Rightarrow> double option"
  ART :: "string \<Rightarrow> r2object option"
  calls :: "call list"

text \<open>
  What the world decides during one run of the handler: whether a call to a collaborator
  throws (\<open>fails\<close>), what \<^verbatim>\<open>new Date().toISOString()\<close> and the limiter's clock (in
  milliseconds) read at each site, what \<^verbatim>\<open>generateImage(prompt, env)\<close> returns or
  throws, which of two failing writes rejects first, and the entity tag the bucket
  gives to an object.
\<close>

record world =
  fails :: "site \<Rightarrow> js_error option"
  toISOString :: "site \<Rightarrow> string"
  Date_now :: "site \<Rightarrow> nat"
  generateImage :: "string \<Rightarrow> js_error + bytes"
  latest_rejects_first :: bool
  etag_for :: "bytes \<Rightarrow> string"

text \<open>A stage returns a response, throws, or lets the handler go on.\<close>

datatype 'a step = Return response | Throw js_error | Next 'a

definition log_call :: "call \<Rightarrow> state \<Rightarrow> state" where
  "log_call c st = st\<lparr>calls := calls st @ [c]\<rparr>"

definition json_response :: "nat \<Rightarrow> (string \<times> string) list \<Rightarrow> response" where
  "json_response code members =
     \<lparr>status = code, headers = [(''content-type'', ''application/json'')], body = Json members\<rparr>"

subsection \<open>Stages 0 and 1: request size and authentication\<close>

definition size_check :: "request \<Rightarrow> response option" where
  "size_check req =
     (if truthy (content_length req)
         \<and> (case parseInt (the (content_length req)) of None \<Rightarrow> False
             | Some n \<Rightarrow> n > MAX_REQUEST_SIZE)
      then Some (json_response 413
             [(''error'', ''request_too_large''),
              (''message'', ''Request body exceeds 10KB limit'')])
      else None)"

definition isSameOrigin :: "request \<Rightarrow> bool" where
  "isSameOrigin req =
     ((case origin req of None \<Rightarrow> False | Some s \<Rightarrow> str_includes s (url_host req))
      \<or> (case referer req of None \<Rightarrow> False | Some s \<Rightarrow> str_includes s (url_host req)))"

definition authenticate :: "env \<Rightarrow> request \<Rightarrow> response option" where
  "authenticate e req =
     (if \<not> isSameOrigin req \<and> (\<not> truthy (x_api_key req) \<or> x_api_key req \<noteq> DEMO_API_KEY e)
      then Some (json_response 401 [(''error'', ''unauthorized'')])
      else None)"

subsection \<open>Stage 2: rate limits and the daily budget\<close>

definition upstash_configured :: "env \<Rightarrow> bool" where
  "upstash_configured e =
     (truthy (UPSTASH_REDIS_REST_URL e) \<and> truthy (UPSTASH_REDIS_REST_TOKEN e))"

text \<open>
  Modelled from the spec: \<^verbatim>\<open>Ratelimit.fixedWindow(tokens, window).limit(identifier)\<close> of
  the \<^verbatim>\<open>@upstash/ratelimit\<close> package, which is not part of the sources. The window key
  is the scope name, the identifier and \<open>floor(now / window-length)\<close>; a call increments
  the counter of the current window and reads it in one step, succeeds while the count
  is within the limit, and reports the remaining count and the end of the window.
\<close>

definition fixedWindow_limit ::
  "nat \<Rightarrow> nat \<Rightarrow> string \<Rightarrow> string \<Rightarrow> nat \<Rightarrow> state \<Rightarrow> (bool \<times> nat \<times> nat) \<times> state" where
  "fixedWindow_limit tokens window prefix identifier now st =
     (let bucket = now div window;
          used = counters st (prefix, identifier, bucket) + 1
      in ((used \<le> tokens, tokens - used, (bucket + 1) * window),
          log_call (CallLimit prefix identifier)
            (st\<lparr>counters := (counters st)((prefix, identifier, bucket) := used)\<rparr>)))"

definition client_ip :: "request \<Rightarrow> string" where
  "client_ip req =
     (if truthy (cf_connecting_ip req) then the (cf_connecting_ip req) else ''unknown'')"

text \<open>\<^verbatim>\<open>stamp.split('T')[0]\<close>: the date part of an ISO timestamp.\<close>

definition date_of :: "string \<Rightarrow> string" where
  "date_of stamp = takeWhile (\<lambda>c. c \<noteq> CHR ''T'') stamp"

definition spendKey :: "string \<Rightarrow> string" where
  "spendKey stamp = ''spend:'' @ date_of stamp"

text \<open>\<^verbatim>\<open>parseFloat(await redis.get(spendKey) || "0")\<close>.\<close>

definition read_spend :: "state \<Rightarrow> string \<Rightarrow> double" where
  "read_spend st key = (case redis st key of None \<Rightarrow> 0 | Some v \<Rightarrow> v)"

definition budget_check :: "world \<Rightarrow> state \<Rightarrow> unit step \<times> state" where
  "budget_check w st =
     (let key = spendKey (toISOString w BudgetDate);
          st1 = log_call (CallRedisGet key) st
      in case fails w BudgetRead of
           Some err \<Rightarrow> (Throw err, st1)
         | None \<Rightarrow>
             if read_spend st key \<ge> DAILY_SPENDING_CAP
             then (Return (json_response 429
                     [(''error'', ''daily_budget_exceeded''),
                      (''message'',
                       ''Daily spending cap of $10 reached. Resets at midnight UTC.'')]), st1)
             else (Next (), st1))"

definition global_limit :: "world \<Rightarrow> state \<Rightarrow> unit step \<times> state" where
  "global_limit w st =
     (case fails w GlobalLimit of
        Some err \<Rightarrow> (Throw err, log_call (CallLimit ''rl:global'' ''all'') st)
      | None \<Rightarrow>
          (case fixedWindow_limit GLOBAL_RATE_LIMIT 3600000 ''rl:global'' ''all''
                  (Date_now w GlobalLimit) st of
             ((globalSuccess, remaining, reset), st1) \<Rightarrow>
               if \<not> globalSuccess
               then (Return (json_response 429
                       [(''error'', ''global_rate_limit_exceeded''),
                        (''message'',
                         ''System is currently at capacity. Please try again later.'')]), st1)
               else budget_check w st1))"

definition rate_limit :: "env \<Rightarrow> world \<Rightarrow> state \<Rightarrow> request \<Rightarrow> unit step \<times> state" where
  "rate_limit e w st req =
     (if \<not> upstash_configured e then (Next (), st)
      else case fails w IpLimit of
        Some err \<Rightarrow> (Throw err, log_call (CallLimit ''rl:ip'' (client_ip req)) st)
      | None \<Rightarrow>
          (case fixedWindow_limit 10 60000 ''rl:ip'' (client_ip req) (Date_now w IpLimit) st of
             ((ipSuccess, remaining, reset), st1) \<Rightarrow>
               if \<not> ipSuccess
               then (Return
                      \<lparr>status = 429,
                       headers = [(''content-type'', ''application/json''),
                                  (''x-ratelimit-remaining'', String_of_nat remaining),
                                  (''x-ratelimit-reset'', String_of_nat reset)],
                       body = Json
                         [(''error'', ''rate_limit_exceeded''),
                          (''message'',
                           ''Too many requests from your IP. Try again in 1 minute.'')]\<rparr>,
                     st1)
               else global_limit w st1))"

subsection \<open>Stages 3 to 5: body, prompt and content filter\<close>

fun js_truthy :: "json \<Rightarrow> bool" where
  "js_truthy JNull = False"
| "js_truthy (JBool b) = b"
| "js_truthy (JNumber n) = (n \<noteq> 0)"
| "js_truthy (JString s) = (s \<noteq> [])"
| "js_truthy (JArray xs) = True"
| "js_truthy (JObject members) = True"

text \<open>
  \<^verbatim>\<open>body.prompt\<close>: reading a property of \<^verbatim>\<open>null\<close> throws, an object gives the member
  or \<^verbatim>\<open>undefined\<close> (\<open>None\<close>), any other JSON value has no such property.
\<close>

fun property_prompt :: "json \<Rightarrow> js_error + json option" where
  "property_prompt JNull = Inl (TypeError (Some ''Cannot read properties of null''))"
| "property_prompt (JObject members) = Inr (map_of members ''prompt'')"
| "property_prompt other = Inr None"

text \<open>
  \<^verbatim>\<open>(v || "").trim()\<close>: a falsy or missing value is replaced by the empty string, a
  string is trimmed, and any other truthy value has no \<^verbatim>\<open>trim\<close> method.
\<close>

fun or_empty_trim :: "json option \<Rightarrow> js_error + string" where
  "or_empty_trim None = Inr (trim [])"
| "or_empty_trim (Some (JString s)) = Inr (trim s)"
| "or_empty_trim (Some v) =
     (if js_truthy v then Inl (TypeError (Some ''trim is not a function'')) else Inr (trim []))"

definition extract_prompt :: "json \<Rightarrow> js_error + string" where
  "extract_prompt b =
     (case property_prompt b of Inl err \<Rightarrow> Inl err | Inr v \<Rightarrow> or_empty_trim v)"

definition validate_prompt :: "string \<Rightarrow> response option" where
  "validate_prompt prompt =
     (if prompt = [] \<or> length prompt < MIN_PROMPT_LENGTH
      then Some (json_response 400
             [(''error'', ''invalid_prompt''),
              (''message'', ''Prompt must be at least 3 characters'')])
      else if length prompt > MAX_PROMPT_LENGTH
      then Some (json_response 400
             [(''error'', ''prompt_too_long''),
              (''message'', ''Prompt must be less than 500 characters'')])
      else None)"

definition foundBlockedWord :: "string \<Rightarrow> string option" where
  "foundBlockedWord prompt =
     find (\<lambda>word. str_includes (toLowerCase prompt) word) BLOCKED_WORDS"

definition content_filter :: "string \<Rightarrow> response option" where
  "content_filter prompt =
     (if truthy (foundBlockedWord prompt)
      then Some (json_response 400
             [(''error'', ''inappropriate_prompt''),
              (''message'', ''Prompt contains inappropriate content'')])
      else None)"

subsection \<open>Stages 6 to 9: generation, ledger, storage and the answer\<close>

text \<open>\<^verbatim>\<open>error.message?.includes(pattern)\<close>.\<close>

definition message_includes :: "js_error \<Rightarrow> string \<Rightarrow> bool" where
  "message_includes err pattern =
     (case message err of None \<Rightarrow> False | Some m \<Rightarrow> str_includes m pattern)"

text \<open>The \<^verbatim>\<open>catch\<close> block of the generation stage.\<close>

definition catch_response :: "js_error \<Rightarrow> response" where
  "catch_response err =
     (if message_includes err ''insufficient_credits'' \<or> message_includes err ''402''
      then json_response 402
             [(''error'', ''insufficient_credits''),
              (''message'', ''AI provider credits exhausted. Please contact administrator.'')]
      else if message_includes err ''timeout'' \<or> message_includes err ''ETIMEDOUT''
      then json_response 504
             [(''error'', ''timeout''),
              (''message'', ''Request timed out. Please try again.'')]
      else if message_includes err ''rate_limit'' \<or> message_includes err ''429''
      then json_response 429
             [(''error'', ''ai_provider_rate_limit''),
              (''message'', ''AI provider is rate limiting. Please wait a moment.'')]
      else if message_includes err ''invalid_prompt'' \<or> message_includes err ''400''
      then json_response 400
             [(''error'', ''invalid_prompt_for_provider''),
              (''message'', ''Prompt was rejected by AI provider. Try different wording.'')]
      else json_response 500
             [(''error'', ''generation_failed''),
              (''message'', ''Image generation failed. Please try again.'')])"

text \<open>
  Stage 7: with the counter store configured, today's entry is read, the cost of one
  image is added and the sum is written back. A failing read or write is thrown inside
  the \<^verbatim>\<open>try\<close> block. The expiry of the entry after two days is not modelled.
\<close>

definition update_spend :: "env \<Rightarrow> world \<Rightarrow> state \<Rightarrow> js_error option \<times> state" where
  "update_spend e w st =
     (if \<not> upstash_configured e then (None, st)
      else let key = spendKey (toISOString w LedgerDate);
               st1 = log_call (CallRedisGet key) st
           in case fails w LedgerRead of
                Some err \<Rightarrow> (Some err, st1)
              | None \<Rightarrow>
                  (let currentSpend = read_spend st key;
                       total = fl_add currentSpend costPerImage;
                       st2 = log_call (CallRedisSet key total) st1
                   in case fails w LedgerWrite of
                        Some err \<Rightarrow> (Some err, st2)
                      | None \<Rightarrow> (None, st2\<lparr>redis := (redis st2)(key \<mapsto> total)\<rparr>)))"

text \<open>
  One \<^verbatim>\<open>env.ART.put(key, imageBytes, {httpMetadata})\<close>: the call is logged; unless it
  fails, the object is in the bucket afterwards.
\<close>

definition put_object :: "world \<Rightarrow> site \<Rightarrow> string \<Rightarrow> bytes \<Rightarrow> string \<Rightarrow> state \<Rightarrow> state" where
  "put_object w s key imageBytes cache st =
     (let st1 = log_call (CallPut key imageBytes) st
      in case fails w s of
           Some err \<Rightarrow> st1
         | None \<Rightarrow>
             st1\<lparr>ART := (ART st1)(key \<mapsto>
                    \<lparr>object_body = imageBytes, contentType = ''image/jpeg'',
                     cacheControl = cache, httpEtag = etag_for w imageBytes\<rparr>)\<rparr>)"

text \<open>
  The rejection of \<^verbatim>\<open>Promise.all\<close> over the two writes: none when both succeed, the
  failure of the one that fails, and the earlier of the two when both fail.
\<close>

definition promise_all_rejection :: "world \<Rightarrow> js_error option" where
  "promise_all_rejection w =
     (case (fails w PutHistory, fails w PutLatest) of
        (None, None) \<Rightarrow> None
      | (Some e1, None) \<Rightarrow> Some e1
      | (None, Some e2) \<Rightarrow> Some e2
      | (Some e1, Some e2) \<Rightarrow> Some (if latest_rejects_first w then e2 else e1))"

text \<open>\<^verbatim>\<open>stamp.replace(/[:.]/g, "-")\<close>.\<close>

definition replace_colon_dot :: "string \<Rightarrow> string" where
  "replace_colon_dot stamp =
     map (\<lambda>c. if c = CHR '':'' \<or> c = CHR ''.'' then CHR ''-'' else c) stamp"

definition historyKey :: "world \<Rightarrow> string" where
  "historyKey w = ''art/'' @ replace_colon_dot (toISOString w StoreDate) @ ''.jpg''"

definition latestKey :: string where
  "latestKey = ''art/latest.jpg''"

definition url_origin :: "request \<Rightarrow> string" where
  "url_origin req = url_protocol req @ ''//'' @ url_host req"

text \<open>Stages 8 and 9: both writes are issued, then awaited together.\<close>

definition store_and_respond ::
  "world \<Rightarrow> state \<Rightarrow> request \<Rightarrow> string \<Rightarrow> bytes \<Rightarrow> response \<times> state" where
  "store_and_respond w st req prompt imageBytes =
     (let st1 = put_object w PutHistory (historyKey w) imageBytes
                  ''public, max-age=31536000, immutable'' st;
          st2 = put_object w PutLatest latestKey imageBytes ''no-store, max-age=0'' st1
      in case promise_all_rejection w of
           Some err \<Rightarrow> (catch_response err, st2)
         | None \<Rightarrow>
             (json_response 200
                [(''latestUrl'', url_origin req @ ''/art/latest.jpg''),
                 (''historyUrl'', url_origin req @ ''/'' @ historyKey w),
                 (''prompt'', prompt)], st2))"

text \<open>Stage 6 with the \<^verbatim>\<open>try\<close> block around stages 6 to 9.\<close>

definition generate_and_store ::
  "env \<Rightarrow> world \<Rightarrow> state \<Rightarrow> request \<Rightarrow> string \<Rightarrow> response \<times> state" where
  "generate_and_store e w st req prompt =
     (let st1 = log_call (CallGenerate prompt) st
      in case generateImage w prompt of
           Inl err \<Rightarrow> (catch_response err, st1)
         | Inr imageBytes \<Rightarrow>
             if length imageBytes > 5 * 1024 * 1024
             then (json_response 500
                     [(''error'', ''image_too_large''),
                      (''message'', ''Generated image exceeds size limit'')], st1)
             else (case update_spend e w st1 of
                     (Some err, st2) \<Rightarrow> (catch_response err, st2)
                   | (None, st2) \<Rightarrow> store_and_respond w st2 req prompt imageBytes))"

subsection \<open>The handler\<close>

text \<open>\<^verbatim>\<open>POST /api/generate\<close>: the stages in the order of the source.\<close>

definition prompt_stages ::
  "env \<Rightarrow> world \<Rightarrow> state \<Rightarrow> request \<Rightarrow> (js_error + response) \<times> state" where
  "prompt_stages e w st req =
     (case json_body req of
        None \<Rightarrow>
          (Inr (json_response 400
                  [(''error'', ''invalid_json''),
                   (''message'', ''Request body must be valid JSON'')]), st)
      | Some b \<Rightarrow>
          (case extract_prompt b of
             Inl err \<Rightarrow> (Inl err, st)
           | Inr prompt \<Rightarrow>
               (case validate_prompt prompt of
                  Some r \<Rightarrow> (Inr r, st)
                | None \<Rightarrow>
                    (case content_filter prompt of
                       Some r \<Rightarrow> (Inr r, st)
                     | None \<Rightarrow>
                         (case generate_and_store e w st req prompt of
                            (r, st') \<Rightarrow> (Inr r, st'))))))"

definition handle_generate ::
  "env \<Rightarrow> world \<Rightarrow> state \<Rightarrow> request \<Rightarrow> (js_error + response) \<times> state" where
  "handle_generate e w st req =
     (case size_check req of
        Some r \<Rightarrow> (Inr r, st)
      | None \<Rightarrow>
          (case authenticate e req of
             Some r \<Rightarrow> (Inr r, st)
           | None \<Rightarrow>
               (case rate_limit e w st req of
                  (Return r, st1) \<Rightarrow> (Inr r, st1)
                | (Throw err, st1) \<Rightarrow> (Inl err, st1)
                | (Next u, st1) \<Rightarrow> prompt_stages e w st1 req)))"

text \<open>\<^verbatim>\<open>GET /art/*\<close>: the object under the path without its leading slash.\<close>

definition serve_art :: "world \<Rightarrow> state \<Rightarrow> request \<Rightarrow> (js_error + response) \<times> state" where
  "serve_art w st req =
     (let key = drop 1 (url_pathname req);
          st1 = log_call (CallGet key) st
      in case fails w ArtGet of
           Some err \<Rightarrow> (Inl err, st1)
         | None \<Rightarrow>
             (case ART st key of
                None \<Rightarrow> (Inr \<lparr>status = 404, headers = [], body = Text ''Image not found''\<rparr>, st1)
              | Some obj \<Rightarrow>
                  (Inr \<lparr>status = 200,
                        headers = [(''content-type'', contentType obj),
                                   (''cache-control'', cacheControl obj),
                                   (''etag'', httpEtag obj),
                                   (''access-control-allow-origin'', ''*'')],
                        body = Bytes (object_body obj)\<rparr>, st1)))"

definition health :: "env \<Rightarrow> world \<Rightarrow> response" where
  "health e w =
     json_response 200
       [(''status'', ''ok''),
        (''timestamp'', toISOString w HealthDate),
        (''version'', ''1.0.0''),
        (''rateLimit'', if upstash_configured e then ''enabled'' else ''disabled'')]"

text \<open>
  \<^verbatim>\<open>fetch(request, env)\<close> of \<^verbatim>\<open>src/worker.js\<close>. The result is the response, or the
  exception that leaves the handler uncaught, and the state afterwards.
\<close>

definition fetch :: "env \<Rightarrow> world \<Rightarrow> state \<Rightarrow> request \<Rightarrow> (js_error + response) \<times> state" where
  "fetch e w st req =
     (if http_method req = ''POST'' \<and> url_pathname req = ''/api/generate''
      then handle_generate e w st req
      else if http_method req = ''GET'' \<and> startsWith (url_pathname req) ''/art/''
      then serve_art w st req
      else if http_method req = ''GET'' \<and> url_pathname req = ''/health''
      then (Inr (health e w), st)
      else if http_method req = ''GET'' \<and> url_pathname req = ''/''
      then (Inr \<lparr>status = 200, headers = [(''content-type'', ''text/html;charset=UTF-8'')],
                  body = Document\<rparr>, st)
      else (Inr \<lparr>status = 404, headers = [], body = Text ''Not found''\<rparr>, st))"

text \<open>
  The second worker source starts its handler with the CORS preflight branch and goes on
  to its routes only for other methods; \<open>routes\<close> stands for the rest of that handler.
\<close>

definition cors_preflight :: "request \<Rightarrow> response option" where
  "cors_preflight req =
     (if http_method req = ''OPTIONS''
      then Some \<lparr>status = 204,
                 headers = [(''Access-Control-Allow-Origin'', ''*''),
                            (''Access-Control-Allow-Methods'', ''GET, POST, OPTIONS''),
                            (''Access-Control-Allow-Headers'', ''Content-Type, X-API-Key''),
                            (''Access-Control-Max-Age'', ''86400'')],
                 body = NoBody\<rparr>
      else None)"

definition fetch_with_preflight ::
  "(request \<Rightarrow> (js_error + response) \<times> state) \<Rightarrow> state \<Rightarrow> request
     \<Rightarrow> (js_error + response) \<times> state" where
  "fetch_with_preflight routes st req =
     (case cors_preflight req of Some r \<Rightarrow> (Inr r, st) | None \<Rightarrow> routes req)"

subsection \<open>Observations and sample inputs\<close>

text \<open>The failure's message contains one of the patterns the \<^verbatim>\<open>catch\<close> block looks for.\<close>

definition provider_pattern :: "js_error \<Rightarrow> bool" where
  "provider_pattern err =
     (message_includes err ''insufficient_credits'' \<or> message_includes err ''402''
      \<or> message_includes err ''timeout'' \<or> message_includes err ''ETIMEDOUT''
      \<or> message_includes err ''rate_limit'' \<or> message_includes err ''429''
      \<or> message_includes err ''invalid_prompt'' \<or> message_includes err ''400'')"


text \<open>How often the generation client has been called.\<close>

fun is_generate :: "call \<Rightarrow> bool" where
  "is_generate (CallGenerate prompt) = True"
| "is_generate other = False"

definition generate_count :: "state \<Rightarrow> nat" where
  "generate_count st = length (filter is_generate (calls st))"


text \<open>The state after the handler has served a sequence of requests, each in its world.\<close>

fun run :: "env \<Rightarrow> state \<Rightarrow> (world \<times> request) list \<Rightarrow> state" where
  "run e st [] = st"
| "run e st ((w, req) # rest) = run e (snd (fetch e w st req)) rest"





text \<open>A worker without and with the counter store, a quiet world and an empty state.\<close>

definition plain_env :: env where
  "plain_env = \<lparr>DEMO_API_KEY = Some ''demo-secret'', UPSTASH_REDIS_REST_URL = None,
                 UPSTASH_REDIS_REST_TOKEN = None\<rparr>"

definition upstash_env :: env where
  "upstash_env = \<lparr>DEMO_API_KEY = Some ''demo-secret'',
                   UPSTASH_REDIS_REST_URL = Some ''https://eu1.upstash.io'',
                   UPSTASH_REDIS_REST_TOKEN = Some ''token''\<rparr>"

definition quiet_world :: world where
  "quiet_world =
     \<lparr>fails = (\<lambda>s. None),
      toISOString = (\<lambda>s. ''2025-11-11T10:30:00.000Z''),
      Date_now = (\<lambda>s. 1762857000000),
      generateImage = (\<lambda>prompt. Inr [0xFF, 0xD8, 0xFF, 0xD9]),
      latest_rejects_first = False,
      etag_for = (\<lambda>b. ''etag'')\<rparr>"

definition empty_state :: state where
  "empty_state = \<lparr>counters = (\<lambda>k. 0), redis = (\<lambda>k. None), ART = (\<lambda>k. None), calls = []\<rparr>"

text \<open>
  A request to \<open>gallery.example\<close> with the given method, path, \<^verbatim>\<open>Origin\<close>, key and
  parsed body, and no other header.
\<close>

definition sample_request ::
  "string \<Rightarrow> string \<Rightarrow> string option \<Rightarrow> string option \<Rightarrow> json option \<Rightarrow> request" where
  "sample_request m path org key b =
     \<lparr>http_method = m, url_protocol = ''https:'', url_host = ''gallery.example'',
      url_pathname = path, content_length = None, origin = org, referer = None,
      x_api_key = key, cf_connecting_ip = None, json_body = b\<rparr>"

definition prompt_body :: "string \<Rightarrow> json" where
  "prompt_body p = JObject [(''prompt'', JString p)]"

text \<open>\<^verbatim>\<open>POST /api/generate\<close> with the configured key and the given parsed body.\<close>

definition keyed_post :: "json \<Rightarrow> request" where
  "keyed_post b =
     sample_request ''POST'' ''/api/generate'' None (Some ''demo-secret'') (Some b)"

text \<open>A prompt of 501 characters that starts and ends with a denylisted word.\<close>

definition long_prompt :: string where
  "long_prompt = ''kill'' @ replicate 493 (CHR ''x'') @ ''kill''"


text \<open>A world in which the write of the latest artifact is turned away by the bucket.\<close>

definition throttled_world :: world where
  "throttled_world =
     quiet_world\<lparr>fails := (\<lambda>s. if s = PutLatest
                                then Some (Error (Some ''put: 429 Too Many Requests''))
                                else None)\<rparr>"

text \<open>A minute later the provider returns another image.\<close>

definition later_world :: world where
  "later_world =
     quiet_world\<lparr>toISOString := (\<lambda>s. ''2025-11-11T10:31:00.000Z''),
                 generateImage := (\<lambda>prompt. Inr [0x4A, 0x46])\<rparr>"


section \<open>Shared facts about the stages\<close>

lemma status_budget_check: "budget_check w st = (Return r, st1) \<Longrightarrow> status r = 429"
  by (auto simp: budget_check_def json_response_def Let_def split: option.splits if_splits)

lemma status_global_limit: "global_limit w st = (Return r, st1) \<Longrightarrow> status r = 429"
  by (auto simp: global_limit_def json_response_def fixedWindow_limit_def Let_def
      split: option.splits if_splits dest: status_budget_check)

lemma status_rate_limit: "rate_limit e w st req = (Return r, st1) \<Longrightarrow> status r = 429"
  by (auto simp: rate_limit_def fixedWindow_limit_def Let_def
      split: if_splits option.splits dest: status_global_limit)

lemma status_catch_response: "status (catch_response err) \<in> {402, 504, 429, 400, 500}"
  by (simp add: catch_response_def json_response_def)

lemma status_store_and_respond:
  "store_and_respond w st req prompt bs = (r, st') \<Longrightarrow> status r \<in> {200, 402, 504, 429, 400, 500}"
  using status_catch_response
  by (auto simp: store_and_respond_def json_response_def Let_def split: option.splits)

lemma status_generate_and_store:
  "generate_and_store e w st req prompt = (r, st') \<Longrightarrow> status r \<in> {200, 402, 504, 429, 400, 500}"
  using status_catch_response
  by (auto simp: generate_and_store_def json_response_def Let_def
      split: option.splits sum.splits prod.splits if_splits dest!: status_store_and_respond)

lemma status_validate_prompt: "validate_prompt p = Some r \<Longrightarrow> status r = 400"
  by (auto simp: validate_prompt_def json_response_def split: if_splits)

lemma status_content_filter: "content_filter p = Some r \<Longrightarrow> status r = 400"
  by (auto simp: content_filter_def json_response_def split: if_splits)

lemma status_prompt_stages:
  "fst (prompt_stages e w st req) = Inr r \<Longrightarrow> status r \<in> {200, 402, 504, 429, 400, 500}"
  by (auto simp: prompt_stages_def json_response_def split: option.splits sum.splits prod.splits
      dest!: status_validate_prompt status_content_filter status_generate_and_store)

lemma status_size_check: "size_check req = Some r \<Longrightarrow> status r = 413"
  by (auto simp: size_check_def json_response_def split: if_splits)

lemma status_authenticate: "authenticate e req = Some r \<Longrightarrow> status r = 401"
  by (auto simp: authenticate_def json_response_def split: if_splits)

lemma status_handle_generate:
  "size_check req = None \<Longrightarrow> fst (handle_generate e w st req) = Inr r \<Longrightarrow>
   status r \<in> {200, 401, 402, 504, 429, 400, 500}"
  by (auto simp: handle_generate_def split: option.splits prod.splits step.splits
      dest!: status_authenticate status_rate_limit status_prompt_stages)

lemma status_serve_art: "fst (serve_art w st req) = Inr r \<Longrightarrow> status r \<in> {200, 404}"
  by (auto simp: serve_art_def Let_def split: option.splits)

lemma status_fetch:
  "size_check req = None \<Longrightarrow> fst (fetch e w st req) = Inr r \<Longrightarrow>
   status r \<in> {200, 401, 402, 404, 504, 429, 400, 500}"
  by (auto simp: fetch_def health_def json_response_def split: if_splits
      dest!: status_handle_generate status_serve_art)

text \<open>A request that passes stages 0 to 2 is handed to the body and prompt stages.\<close>

lemma fetch_prompt_stages:
  assumes "http_method req = ''POST''" and "url_pathname req = ''/api/generate''"
    and "size_check req = None" and "authenticate e req = None"
    and "rate_limit e w st req = (Next (), st1)"
  shows "fetch e w st req = prompt_stages e w st1 req"
  using assms by (simp add: fetch_def handle_generate_def)

lemma prompt_stages_string:
  assumes "json_body req = Some (JObject members)"
    and "map_of members ''prompt'' = Some (JString p)"
  shows "prompt_stages e w st req =
     (case validate_prompt (trim p) of
        Some r \<Rightarrow> (Inr r, st)
      | None \<Rightarrow>
          (case content_filter (trim p) of
             Some r \<Rightarrow> (Inr r, st)
           | None \<Rightarrow> (Inr (fst (generate_and_store e w st req (trim p))),
                       snd (generate_and_store e w st req (trim p)))))"
  using assms by (simp add: prompt_stages_def extract_prompt_def split_beta split: option.splits)

lemma generate_count_rate_limit:
  "rate_limit e w st req = (x, st1) \<Longrightarrow> generate_count st1 = generate_count st"
  by (auto simp: rate_limit_def global_limit_def budget_check_def fixedWindow_limit_def
        generate_count_def log_call_def Let_def
      split: if_splits option.splits)

text \<open>
  The sample request with the configured key passes stages 0 to 2 of a worker without
  counter store.
\<close>

lemma sample_post_route:
  "http_method (sample_request ''POST'' ''/api/generate'' org key b) = ''POST''"
  "url_pathname (sample_request ''POST'' ''/api/generate'' org key b) = ''/api/generate''"
  "json_body (sample_request m path org key b) = b"
  by (simp_all add: sample_request_def)

lemma sample_post_size_check: "size_check (sample_request m path org key b) = None"
  by (simp add: size_check_def sample_request_def)

lemma sample_post_authenticate:
  "authenticate plain_env (sample_request m path org (Some ''demo-secret'') b) = None"
  "authenticate upstash_env (sample_request m path org (Some ''demo-secret'') b) = None"
  by (simp_all add: authenticate_def sample_request_def plain_env_def upstash_env_def)

lemma plain_env_rate_limit: "rate_limit plain_env w st req = (Next (), st)"
  by (simp add: rate_limit_def upstash_configured_def plain_env_def)

lemma prompt_body_member:
  "prompt_body p = JObject [(''prompt'', JString p)]"
  "map_of [(''prompt'', JString p)] ''prompt'' = Some (JString p)"
  by (simp_all add: prompt_body_def)

lemma keyed_post_reaches:
  "http_method (keyed_post b) = ''POST''"
  "url_pathname (keyed_post b) = ''/api/generate''"
  "size_check (keyed_post b) = None"
  "authenticate plain_env (keyed_post b) = None"
  "rate_limit plain_env w st (keyed_post b) = (Next (), st)"
  by (simp_all add: keyed_post_def sample_post_route sample_post_size_check
        sample_post_authenticate plain_env_rate_limit)

lemma keyed_post_prompt:
  "json_body (keyed_post (prompt_body p)) = Some (JObject [(''prompt'', JString p)])"
  "map_of [(''prompt'', JString p)] ''prompt'' = Some (JString p)"
  by (simp_all add: keyed_post_def sample_post_route prompt_body_def)

text \<open>A run of stages 6 to 9 in the quiet world, without counter store.\<close>

lemma quiet_generate_response:
  "fst (generate_and_store plain_env quiet_world st req prompt) =
     json_response 200
       [(''latestUrl'', url_origin req @ ''/art/latest.jpg''),
        (''historyUrl'', url_origin req @ ''/art/2025-11-11T10-30-00-000Z.jpg''),
        (''prompt'', prompt)]"
  by (simp add: generate_and_store_def update_spend_def upstash_configured_def
        store_and_respond_def promise_all_rejection_def historyKey_def replace_colon_dot_def
        Let_def plain_env_def quiet_world_def)

lemma quiet_generate_count:
  "generate_count (snd (generate_and_store plain_env quiet_world st req prompt)) =
     Suc (generate_count st)"
  by (simp add: generate_and_store_def update_spend_def upstash_configured_def
        store_and_respond_def promise_all_rejection_def put_object_def log_call_def
        generate_count_def Let_def plain_env_def quiet_world_def)

lemma generate_count_empty: "generate_count empty_state = 0"
  by (simp add: generate_count_def empty_state_def)

subsection \<open>Substrings, trimming and lower case\<close>

lemma startsWith_iff: "startsWith s p \<longleftrightarrow> (\<exists>b. s = p @ b)"
  by (induction s p rule: startsWith.induct) auto

lemma str_includes_iff: "str_includes s sub \<longleftrightarrow> (\<exists>a b. s = a @ sub @ b)"
proof (induction s)
  case Nil
  then show ?case by auto
next
  case (Cons c cs)
  show ?case
  proof
    assume "str_includes (c # cs) sub"
    then consider "startsWith (c # cs) sub" | "str_includes cs sub" by auto
    then show "\<exists>a b. c # cs = a @ sub @ b"
    proof cases
      case 1
      then obtain b where "c # cs = sub @ b" using startsWith_iff by blast
      then have "c # cs = [] @ sub @ b" by simp
      then show ?thesis by blast
    next
      case 2
      then obtain a b where "cs = a @ sub @ b" using Cons.IH by blast
      then have "c # cs = (c # a) @ sub @ b" by simp
      then show ?thesis by blast
    qed
  next
    assume "\<exists>a b. c # cs = a @ sub @ b"
    then obtain a b where ab: "c # cs = a @ sub @ b" by blast
    show "str_includes (c # cs) sub"
    proof (cases a)
      case Nil
      then have "startsWith (c # cs) sub" using ab startsWith_iff by auto
      then show ?thesis by simp
    next
      case (Cons x a')
      then have "cs = a' @ sub @ b" using ab by simp
      then have "str_includes cs sub" using Cons.IH by blast
      then show ?thesis by simp
    qed
  qed
qed

lemma dropWhile_keeps:
  assumes "word \<noteq> []" and "\<not> P (hd word)"
  shows "\<exists>a'. dropWhile P (a @ word @ b) = a' @ word @ b"
proof (induction a)
  case Nil
  from assms have "dropWhile P (word @ b) = word @ b" by (cases word) auto
  then have "dropWhile P ([] @ word @ b) = [] @ word @ b" by simp
  then show ?case by blast
next
  case (Cons x a)
  then obtain a' where a': "dropWhile P (a @ word @ b) = a' @ word @ b" by blast
  show ?case
  proof (cases "P x")
    case True
    then show ?thesis using a' by auto
  next
    case False
    then have "dropWhile P ((x # a) @ word @ b) = (x # a) @ word @ b" by simp
    then show ?thesis by blast
  qed
qed

lemma trim_keeps:
  assumes "word \<noteq> []" and "\<not> is_ws (hd word)" and "\<not> is_ws (last word)"
  shows "\<exists>a' b'. trim (a @ word @ b) = a' @ word @ b'"
proof -
  obtain a' where a': "dropWhile is_ws (a @ word @ b) = a' @ word @ b"
    using dropWhile_keeps [of word is_ws a b] assms by blast
  have r: "rev word \<noteq> []" "\<not> is_ws (hd (rev word))"
    using assms by (simp_all add: hd_rev)
  obtain b' where b': "dropWhile is_ws (rev b @ rev word @ rev a') = b' @ rev word @ rev a'"
    using dropWhile_keeps [of "rev word" is_ws "rev b" "rev a'"] r by blast
  have "trim (a @ word @ b) = a' @ word @ rev b'"
    by (simp add: trim_def a' b')
  then show ?thesis by blast
qed

lemma lower_char_ws: "is_ws c \<Longrightarrow> lower_char c = c"
  unfolding is_ws_def
  by (elim disjE) (simp_all add: lower_char_def upper_case_def lower_case_def)

lemma map_eq_append3:
  assumes "map f p = a @ word @ b"
  obtains a0 w0 b0 where "p = a0 @ w0 @ b0" and "map f w0 = word"
proof -
  let ?w0 = "take (length word) (drop (length a) p)"
  have "map f ?w0 = take (length word) (drop (length a) (map f p))"
    by (simp add: take_map drop_map)
  also have "\<dots> = word" using assms by simp
  finally have m: "map f ?w0 = word" .
  have "drop (length a) p = ?w0 @ drop (length word) (drop (length a) p)"
    by (simp only: append_take_drop_id)
  then have "p = take (length a) p @ ?w0 @ drop (length word) (drop (length a) p)"
    by (metis append_take_drop_id)
  then show ?thesis using m that by blast
qed

lemma toLowerCase_trim_keeps:
  assumes "word \<noteq> []" and "\<not> is_ws (hd word)" and "\<not> is_ws (last word)"
    and "str_includes (toLowerCase p) word"
  shows "str_includes (toLowerCase (trim p)) word"
proof -
  obtain a b where "map lower_char p = a @ word @ b"
    using assms(4) by (auto simp: str_includes_iff toLowerCase_def)
  then obtain a0 w0 b0 where p: "p = a0 @ w0 @ b0" and w0: "map lower_char w0 = word"
    by (rule map_eq_append3)
  have ne: "w0 \<noteq> []" using w0 assms(1) by auto
  have h: "\<not> is_ws (hd w0)"
    using lower_char_ws [of "hd w0"] assms(2) w0 ne by (auto simp: hd_map)
  have l: "\<not> is_ws (last w0)"
    using lower_char_ws [of "last w0"] assms(3) w0 ne by (auto simp: last_map)
  obtain a' b' where "trim p = a' @ w0 @ b'"
    using trim_keeps [of w0 a0 b0] ne h l p by blast
  then have "toLowerCase (trim p) = map lower_char a' @ word @ map lower_char b'"
    by (simp add: toLowerCase_def w0)
  then show ?thesis using str_includes_iff by blast
qed

lemma blocked_word_shape:
  "word \<in> set BLOCKED_WORDS \<Longrightarrow> word \<noteq> [] \<and> \<not> is_ws (hd word) \<and> \<not> is_ws (last word)"
  by (auto simp: BLOCKED_WORDS_def is_ws_def)

lemma content_filter_blocked:
  assumes "word \<in> set BLOCKED_WORDS" and "str_includes (toLowerCase prompt) word"
  shows "content_filter prompt = Some (json_response 400
             [(''error'', ''inappropriate_prompt''),
              (''message'', ''Prompt contains inappropriate content'')])"
proof -
  have "find (\<lambda>word. str_includes (toLowerCase prompt) word) BLOCKED_WORDS \<noteq> None"
    using assms by (auto simp: find_None_iff)
  then obtain found where f: "foundBlockedWord prompt = Some found"
    by (auto simp: foundBlockedWord_def)
  then have "found \<in> set BLOCKED_WORDS"
    by (auto simp: foundBlockedWord_def find_Some_iff)
  then have "found \<noteq> []" using blocked_word_shape by blast
  then show ?thesis using f by (simp add: content_filter_def)
qed

lemma blocked_word_length: "word \<in> set BLOCKED_WORDS \<Longrightarrow> 3 \<le> length word"
  by (auto simp: BLOCKED_WORDS_def)

lemma str_includes_length: "str_includes s sub \<Longrightarrow> length sub \<le> length s"
  by (auto simp: str_includes_iff)

lemma trim_clean:
  assumes "s \<noteq> []" and "\<not> is_ws (hd s)" and "\<not> is_ws (last s)"
  shows "trim s = s"
proof -
  have a: "dropWhile is_ws s = s"
    using assms by (cases s) auto
  have "dropWhile is_ws (rev s) = rev s"
    using assms by (cases "rev s") (auto simp: hd_rev)
  then show ?thesis by (simp add: trim_def a)
qed

subsection \<open>The two writes\<close>

lemma ART_put_object:
  "ART (put_object w s key bs cache st) =
     (case fails w s of
        Some err \<Rightarrow> ART st
      | None \<Rightarrow> (ART st)(key \<mapsto> \<lparr>object_body = bs, contentType = ''image/jpeg'',
                                cacheControl = cache, httpEtag = etag_for w bs\<rparr>))"
  by (simp add: put_object_def log_call_def Let_def split: option.splits)

lemma calls_put_object:
  "calls (put_object w s key bs cache st) = calls st @ [CallPut key bs]"
  by (simp add: put_object_def log_call_def Let_def split: option.splits)

lemma store_and_respond_calls:
  "calls (snd (store_and_respond w st req prompt bs)) =
     calls st @ [CallPut (historyKey w) bs, CallPut latestKey bs]"
  by (simp add: store_and_respond_def calls_put_object Let_def split: option.splits)

lemma store_and_respond_success:
  assumes "fails w PutHistory = None" and "fails w PutLatest = None"
  shows "fst (store_and_respond w st req prompt bs) =
           json_response 200
             [(''latestUrl'', url_origin req @ ''/art/latest.jpg''),
              (''historyUrl'', url_origin req @ ''/'' @ historyKey w),
              (''prompt'', prompt)]"
    and "map_option object_body (ART (snd (store_and_respond w st req prompt bs)) latestKey) = Some bs"
  using assms
  by (simp_all add: store_and_respond_def promise_all_rejection_def ART_put_object Let_def)

lemma store_and_respond_history:
  assumes "fails w PutHistory = None"
  shows "map_option object_body (ART (snd (store_and_respond w st req prompt bs)) (historyKey w)) = Some bs"
  using assms
  by (simp add: store_and_respond_def ART_put_object Let_def split: option.splits)

lemma store_and_respond_failure:
  assumes "fails w PutHistory \<noteq> None \<or> fails w PutLatest \<noteq> None"
  shows "\<exists>err. (fails w PutHistory = Some err \<or> fails w PutLatest = Some err)
           \<and> fst (store_and_respond w st req prompt bs) = catch_response err"
  using assms
  by (auto simp: store_and_respond_def promise_all_rejection_def Let_def split: option.splits)

lemma status_200_catch_response: "status (catch_response err) \<noteq> 200"
  by (simp add: catch_response_def json_response_def)

lemma generate_and_store_stored:
  assumes "generateImage w prompt = Inr imageBytes"
    and "length imageBytes \<le> 5 * 1024 * 1024"
    and "update_spend e w (log_call (CallGenerate prompt) st) = (None, st2)"
  shows "generate_and_store e w st req prompt = store_and_respond w st2 req prompt imageBytes"
  using assms by (simp add: generate_and_store_def Let_def)

lemma catch_response_default:
  "\<not> provider_pattern err \<Longrightarrow>
   catch_response err =
     json_response 500
       [(''error'', ''generation_failed''),
        (''message'', ''Image generation failed. Please try again.'')]"
  by (simp add: catch_response_def provider_pattern_def)

lemma catch_response_pattern:
  "provider_pattern err \<Longrightarrow> status (catch_response err) \<in> {402, 504, 429, 400}"
  by (auto simp: catch_response_def json_response_def provider_pattern_def)

text \<open>Only a run through all stages is answered 200.\<close>

lemma handle_generate_200_stages:
  assumes "handle_generate e w st req = (Inr r, st')" and "status r = 200"
  shows "\<exists>st1 prompt. rate_limit e w st req = (Next (), st1)
            \<and> generate_and_store e w st1 req prompt = (r, st')"
  using assms
  by (auto simp: handle_generate_def prompt_stages_def json_response_def
      split: option.splits prod.splits step.splits sum.splits
      dest!: status_size_check status_authenticate status_rate_limit status_validate_prompt
        status_content_filter)

subsection \<open>The ledger after 2500 and 2501 additions\<close>































text \<open>
  The constant of the cost is the double nearest to 0.004: it has 53 significant bits and
  lies within half a unit of \<open>0.004 \<cdot> 2\<^sup>6\<^sup>0\<close>.
\<close>

lemma costPerImage_nearest:
  "2 ^ 52 \<le> costPerImage \<and> costPerImage < 2 ^ 53
   \<and> 2 * \<bar>1000 * int costPerImage - 4 * 2 ^ 60\<bar> \<le> 1000"
  by (simp add: costPerImage_def)






subsection \<open>Where a budget rejection comes from\<close>






section \<open>Claims\<close>

text \<open>
  The authentication stage admits exactly the requests whose \<^verbatim>\<open>Origin\<close> or \<^verbatim>\<open>Referer\<close>
  header contains the host of the request URL as a substring, or whose \<^verbatim>\<open>x-api-key\<close> is
  non-empty and equal to the configured secret.
\<close>

lemma authenticate_admits_iff:
  "authenticate e req = None \<longleftrightarrow>
     isSameOrigin req \<or> (\<exists>k. k \<noteq> [] \<and> x_api_key req = Some k \<and> DEMO_API_KEY e = Some k)"
  by (cases "x_api_key req") (auto simp: authenticate_def)

text \<open>
  C1. The claim admits a request past authentication only if its origin or referrer
  indicates the service's own host or its key matches the secret, and answers 401 to
  every other request. The handler tests the headers with \<^verbatim>\<open>includes\<close>: a request from
  the foreign origin \<^verbatim>\<open>https://gallery.example.evil.net\<close> to the host
  \<^verbatim>\<open>gallery.example\<close>, without any key, is admitted, the generation client is called
  and the answer is 200.
\<close>

theorem foreign_origin_admitted:
  "fst (fetch plain_env quiet_world empty_state
         (sample_request ''POST'' ''/api/generate'' (Some ''https://gallery.example.evil.net'')
            None (Some (prompt_body ''a red fox''))))
     = Inr (json_response 200
             [(''latestUrl'', ''https://gallery.example/art/latest.jpg''),
              (''historyUrl'', ''https://gallery.example/art/2025-11-11T10-30-00-000Z.jpg''),
              (''prompt'', ''a red fox'')])
   \<and> generate_count (snd (fetch plain_env quiet_world empty_state
         (sample_request ''POST'' ''/api/generate'' (Some ''https://gallery.example.evil.net'')
            None (Some (prompt_body ''a red fox''))))) = 1"
proof -
  let ?req = "sample_request ''POST'' ''/api/generate'' (Some ''https://gallery.example.evil.net'')
            None (Some (prompt_body ''a red fox''))"
  have auth: "authenticate plain_env ?req = None"
    by (simp add: authenticate_def isSameOrigin_def sample_request_def)
  have t: "trim ''a red fox'' = ''a red fox''"
    by (simp add: trim_def is_ws_def)
  have v: "validate_prompt ''a red fox'' = None"
    by (simp add: validate_prompt_def MIN_PROMPT_LENGTH_def MAX_PROMPT_LENGTH_def)
  have c: "content_filter ''a red fox'' = None"
    by (simp add: content_filter_def foundBlockedWord_def toLowerCase_def lower_char_def
          upper_case_def lower_case_def BLOCKED_WORDS_def)
  have o: "url_origin ?req = ''https://gallery.example''"
    by (simp add: url_origin_def sample_request_def)
  have "fetch plain_env quiet_world empty_state ?req
          = prompt_stages plain_env quiet_world empty_state ?req"
    by (rule fetch_prompt_stages
          [OF sample_post_route(1,2) sample_post_size_check auth plain_env_rate_limit])
  also have "\<dots> = (Inr (fst (generate_and_store plain_env quiet_world empty_state ?req ''a red fox'')),
                   snd (generate_and_store plain_env quiet_world empty_state ?req ''a red fox''))"
    using prompt_stages_string [OF _ prompt_body_member(2), of ?req "''a red fox''"]
    by (simp add: sample_post_route(3) prompt_body_member(1) t v c)
  finally show ?thesis
    by (simp add: quiet_generate_response quiet_generate_count o generate_count_empty)
qed

text \<open>
  C2 (as amended). A request that reaches the prompt stages with a string prompt that,
  after lowercasing, contains a word of the denylist anywhere, and whose trimmed length
  is at most 500, is answered 400 \<^verbatim>\<open>inappropriate_prompt\<close>, and the generation client is
  not called. (A longer prompt is answered \<^verbatim>\<open>prompt_too_long\<close> by the stage before.)
\<close>

theorem denylisted_prompt_rejected:
  assumes "http_method req = ''POST''" and "url_pathname req = ''/api/generate''"
    and "size_check req = None" and "authenticate e req = None"
    and "rate_limit e w st req = (Next (), st1)"
    and "json_body req = Some (JObject members)"
    and "map_of members ''prompt'' = Some (JString p)"
    and "word \<in> set BLOCKED_WORDS" and "str_includes (toLowerCase p) word"
    and "length (trim p) \<le> MAX_PROMPT_LENGTH"
  shows "fetch e w st req =
           (Inr (json_response 400
                  [(''error'', ''inappropriate_prompt''),
                   (''message'', ''Prompt contains inappropriate content'')]), st1)
         \<and> generate_count st1 = generate_count st"
proof -
  have shape: "word \<noteq> []" "\<not> is_ws (hd word)" "\<not> is_ws (last word)"
    using blocked_word_shape [OF assms(8)] by simp_all
  have inc: "str_includes (toLowerCase (trim p)) word"
    using toLowerCase_trim_keeps [OF shape assms(9)] .
  have "length word \<le> length (toLowerCase (trim p))"
    using str_includes_length [OF inc] .
  then have "3 \<le> length (trim p)"
    using blocked_word_length [OF assms(8)] by (simp add: toLowerCase_def)
  then have v: "validate_prompt (trim p) = None"
    using assms(10) by (auto simp: validate_prompt_def MIN_PROMPT_LENGTH_def)
  have c: "content_filter (trim p) = Some (json_response 400
             [(''error'', ''inappropriate_prompt''),
              (''message'', ''Prompt contains inappropriate content'')])"
    using content_filter_blocked [OF assms(8) inc] .
  have "fetch e w st req = prompt_stages e w st1 req"
    using fetch_prompt_stages [OF assms(1-5)] .
  then have "fetch e w st req =
           (Inr (json_response 400
                  [(''error'', ''inappropriate_prompt''),
                   (''message'', ''Prompt contains inappropriate content'')]), st1)"
    by (simp add: prompt_stages_string [OF assms(6,7)] v c)
  then show ?thesis
    using generate_count_rate_limit [OF assms(5)] by simp
qed

theorem denylisted_prompt_rejected_witness:
  "''kill'' \<in> set BLOCKED_WORDS
   \<and> str_includes (toLowerCase ''How to KILL time'') ''kill''
   \<and> length (trim ''How to KILL time'') \<le> MAX_PROMPT_LENGTH
   \<and> fetch plain_env quiet_world empty_state (keyed_post (prompt_body ''How to KILL time''))
      = (Inr (json_response 400
               [(''error'', ''inappropriate_prompt''),
                (''message'', ''Prompt contains inappropriate content'')]), empty_state)
   \<and> generate_count empty_state = generate_count empty_state"
proof -
  have w: "''kill'' \<in> set BLOCKED_WORDS" by (simp add: BLOCKED_WORDS_def)
  have i: "str_includes (toLowerCase ''How to KILL time'') ''kill''"
    by (simp add: toLowerCase_def lower_char_def upper_case_def lower_case_def)
  have l: "length (trim ''How to KILL time'') \<le> MAX_PROMPT_LENGTH"
    by (simp add: trim_def is_ws_def MAX_PROMPT_LENGTH_def)
  show ?thesis
    using denylisted_prompt_rejected [OF keyed_post_reaches keyed_post_prompt w i l] w i l
    by simp
qed

text \<open>
  The claim as stated fails for a prompt of 501 characters that contains a denylisted
  word: the length check answers first.
\<close>

theorem long_denylisted_prompt_counterexample:
  "str_includes (toLowerCase long_prompt) ''kill''
   \<and> fetch plain_env quiet_world empty_state (keyed_post (prompt_body long_prompt))
      = (Inr (json_response 400
               [(''error'', ''prompt_too_long''),
                (''message'', ''Prompt must be less than 500 characters'')]), empty_state)"
proof -
  have i: "str_includes (toLowerCase long_prompt) ''kill''"
    by (simp add: long_prompt_def toLowerCase_def lower_char_def upper_case_def lower_case_def)
  have t: "trim long_prompt = long_prompt"
    by (rule trim_clean) (simp_all add: long_prompt_def is_ws_def)
  have v: "validate_prompt (trim long_prompt) = Some (json_response 400
               [(''error'', ''prompt_too_long''),
                (''message'', ''Prompt must be less than 500 characters'')])"
    by (simp add: t validate_prompt_def MIN_PROMPT_LENGTH_def MAX_PROMPT_LENGTH_def)
      (simp add: long_prompt_def)
  have "fetch plain_env quiet_world empty_state (keyed_post (prompt_body long_prompt))
     = prompt_stages plain_env quiet_world empty_state (keyed_post (prompt_body long_prompt))"
    by (rule fetch_prompt_stages [OF keyed_post_reaches])
  also have "\<dots> = (Inr (json_response 400
               [(''error'', ''prompt_too_long''),
                (''message'', ''Prompt must be less than 500 characters'')]), empty_state)"
    by (simp add: prompt_stages_string [OF keyed_post_prompt] v)
  finally show ?thesis using i by simp
qed

text \<open>
  C3. For a request that reaches the prompt stages with a string prompt: a trimmed length
  below 3 is answered 400 \<^verbatim>\<open>invalid_prompt\<close> and a trimmed length above 500 is answered
  400 \<^verbatim>\<open>prompt_too_long\<close>, in both cases without a call of the generation client; a
  trimmed length of exactly 3 or exactly 500 passes both length checks, and the handler
  goes on to the content filter.
\<close>

theorem prompt_length_bounds:
  assumes "http_method req = ''POST''" and "url_pathname req = ''/api/generate''"
    and "size_check req = None" and "authenticate e req = None"
    and "rate_limit e w st req = (Next (), st1)"
    and "json_body req = Some (JObject members)"
    and "map_of members ''prompt'' = Some (JString p)"
  shows "(length (trim p) < 3 \<longrightarrow>
            fetch e w st req =
              (Inr (json_response 400
                     [(''error'', ''invalid_prompt''),
                      (''message'', ''Prompt must be at least 3 characters'')]), st1)
            \<and> generate_count st1 = generate_count st)
       \<and> (500 < length (trim p) \<longrightarrow>
            fetch e w st req =
              (Inr (json_response 400
                     [(''error'', ''prompt_too_long''),
                      (''message'', ''Prompt must be less than 500 characters'')]), st1)
            \<and> generate_count st1 = generate_count st)
       \<and> (length (trim p) = 3 \<or> length (trim p) = 500 \<longrightarrow>
            validate_prompt (trim p) = None
            \<and> fetch e w st req =
                (case content_filter (trim p) of
                   Some r \<Rightarrow> (Inr r, st1)
                 | None \<Rightarrow> (Inr (fst (generate_and_store e w st1 req (trim p))),
                             snd (generate_and_store e w st1 req (trim p)))))"
proof -
  have f: "fetch e w st req =
     (case validate_prompt (trim p) of
        Some r \<Rightarrow> (Inr r, st1)
      | None \<Rightarrow>
          (case content_filter (trim p) of
             Some r \<Rightarrow> (Inr r, st1)
           | None \<Rightarrow> (Inr (fst (generate_and_store e w st1 req (trim p))),
                       snd (generate_and_store e w st1 req (trim p)))))"
    using fetch_prompt_stages [OF assms(1-5)] prompt_stages_string [OF assms(6,7)] by simp
  have g: "generate_count st1 = generate_count st"
    using generate_count_rate_limit [OF assms(5)] .
  have short: "validate_prompt (trim p) = Some (json_response 400
                     [(''error'', ''invalid_prompt''),
                      (''message'', ''Prompt must be at least 3 characters'')])"
    if "length (trim p) < 3"
    using that by (simp add: validate_prompt_def MIN_PROMPT_LENGTH_def)
  have long: "validate_prompt (trim p) = Some (json_response 400
                     [(''error'', ''prompt_too_long''),
                      (''message'', ''Prompt must be less than 500 characters'')])"
    if "500 < length (trim p)"
    using that by (auto simp: validate_prompt_def MIN_PROMPT_LENGTH_def MAX_PROMPT_LENGTH_def)
  have edge: "validate_prompt (trim p) = None"
    if "length (trim p) = 3 \<or> length (trim p) = 500"
    using that by (auto simp: validate_prompt_def MIN_PROMPT_LENGTH_def MAX_PROMPT_LENGTH_def)
  show ?thesis
    using f g short long edge by simp
qed

theorem prompt_length_bounds_witness:
  "length (trim '' ab '') < 3
   \<and> fetch plain_env quiet_world empty_state (keyed_post (prompt_body '' ab ''))
      = (Inr (json_response 400
               [(''error'', ''invalid_prompt''),
                (''message'', ''Prompt must be at least 3 characters'')]), empty_state)
   \<and> 500 < length (trim long_prompt)
   \<and> fetch plain_env quiet_world empty_state (keyed_post (prompt_body long_prompt))
      = (Inr (json_response 400
               [(''error'', ''prompt_too_long''),
                (''message'', ''Prompt must be less than 500 characters'')]), empty_state)
   \<and> length (trim '' cat '') = 3
   \<and> validate_prompt (trim '' cat '') = None
   \<and> length (trim (replicate 500 (CHR ''a''))) = 500
   \<and> validate_prompt (trim (replicate 500 (CHR ''a''))) = None"
proof -
  note inst = prompt_length_bounds [OF keyed_post_reaches keyed_post_prompt]
  have a: "length (trim '' ab '') < 3" and c: "length (trim '' cat '') = 3"
    by (simp_all add: trim_def is_ws_def)
  have "trim long_prompt = long_prompt"
    by (rule trim_clean) (simp_all add: long_prompt_def is_ws_def)
  then have b: "500 < length (trim long_prompt)"
    by (simp add: long_prompt_def)
  have "trim (replicate 500 (CHR ''a'')) = replicate 500 (CHR ''a'')"
    by (rule trim_clean) (simp_all add: is_ws_def)
  then have d: "length (trim (replicate 500 (CHR ''a''))) = 500"
    by simp
  show ?thesis
    using inst [where p = "'' ab ''" and w = quiet_world and st = empty_state]
      inst [where p = long_prompt and w = quiet_world and st = empty_state]
      inst [where p = "'' cat ''" and w = quiet_world and st = empty_state]
      inst [where p = "replicate 500 (CHR ''a'')" and w = quiet_world and st = empty_state]
      a b c d
    by simp
qed


























text \<open>
  C5 (as amended). After a generation that returned an image of at most 5 MiB and a
  ledger update that did not fail, both writes are issued. If either write fails, the
  answer is never a success: it is what the \<^verbatim>\<open>catch\<close> block builds from the failure of a
  write, that is \<^verbatim>\<open>generation_failed\<close> (500) unless the failure's message contains a
  provider pattern (then 402, 504, 429 or 400). The answer is 200 exactly when both
  writes have completed, and then both keys hold the generated bytes.
\<close>

theorem writes_after_generation:
  assumes "generateImage w prompt = Inr imageBytes"
    and "length imageBytes \<le> 5 * 1024 * 1024"
    and "update_spend e w (log_call (CallGenerate prompt) st) = (None, st2)"
    and "generate_and_store e w st req prompt = (r, st')"
  shows "calls st' = calls st2 @ [CallPut (historyKey w) imageBytes, CallPut latestKey imageBytes]
     \<and> (status r = 200 \<longleftrightarrow> fails w PutHistory = None \<and> fails w PutLatest = None)
     \<and> (if fails w PutHistory = None \<and> fails w PutLatest = None
         then r = json_response 200
                    [(''latestUrl'', url_origin req @ ''/art/latest.jpg''),
                     (''historyUrl'', url_origin req @ ''/'' @ historyKey w),
                     (''prompt'', prompt)]
              \<and> map_option object_body (ART st' (historyKey w)) = Some imageBytes
              \<and> map_option object_body (ART st' latestKey) = Some imageBytes
         else \<exists>err. (fails w PutHistory = Some err \<or> fails w PutLatest = Some err)
                \<and> r = catch_response err
                \<and> (if provider_pattern err then status r \<in> {402, 504, 429, 400}
                    else r = json_response 500
                           [(''error'', ''generation_failed''),
                            (''message'', ''Image generation failed. Please try again.'')]))"
proof -
  have s: "store_and_respond w st2 req prompt imageBytes = (r, st')"
    using generate_and_store_stored [OF assms(1-3)] assms(4) by simp
  have c: "calls st' = calls st2 @ [CallPut (historyKey w) imageBytes, CallPut latestKey imageBytes]"
    using store_and_respond_calls [of w st2 req prompt imageBytes] s by simp
  show ?thesis
  proof (cases "fails w PutHistory = None \<and> fails w PutLatest = None")
    case True
    then have "r = json_response 200
                    [(''latestUrl'', url_origin req @ ''/art/latest.jpg''),
                     (''historyUrl'', url_origin req @ ''/'' @ historyKey w),
                     (''prompt'', prompt)]"
      and "map_option object_body (ART st' latestKey) = Some imageBytes"
      and "map_option object_body (ART st' (historyKey w)) = Some imageBytes"
      using store_and_respond_success [of w st2 req prompt imageBytes]
        store_and_respond_history [of w st2 req prompt imageBytes] s by simp_all
    then show ?thesis using True c by (simp add: json_response_def)
  next
    case False
    then obtain err where e: "fails w PutHistory = Some err \<or> fails w PutLatest = Some err"
      and r: "r = catch_response err"
      using store_and_respond_failure [of w st2 req prompt imageBytes] s by auto
    have n: "status r \<noteq> 200"
      using r status_200_catch_response by simp
    have k: "if provider_pattern err then status r \<in> {402, 504, 429, 400}
             else r = json_response 500
                        [(''error'', ''generation_failed''),
                         (''message'', ''Image generation failed. Please try again.'')]"
      using r catch_response_pattern [of err] catch_response_default [of err] by simp
    have "\<exists>err. (fails w PutHistory = Some err \<or> fails w PutLatest = Some err)
                \<and> r = catch_response err
                \<and> (if provider_pattern err then status r \<in> {402, 504, 429, 400}
                    else r = json_response 500
                           [(''error'', ''generation_failed''),
                            (''message'', ''Image generation failed. Please try again.'')])"
      using e r k by blast
    then show ?thesis using False c n by (simp only: if_False simp_thms)
  qed
qed

lemma plain_update_spend: "update_spend plain_env w st = (None, st)"
  by (simp add: update_spend_def upstash_configured_def plain_env_def)

lemma throttled_catch_response:
  "catch_response (Error (Some ''put: 429 Too Many Requests'')) =
     json_response 429
       [(''error'', ''ai_provider_rate_limit''),
        (''message'', ''AI provider is rate limiting. Please wait a moment.'')]"
  by (simp add: catch_response_def message_includes_def)

theorem writes_after_generation_witness:
  "generateImage throttled_world ''a red fox'' = Inr [0xFF, 0xD8, 0xFF, 0xD9]
   \<and> length [0xFF, 0xD8, 0xFF, 0xD9 :: 8 word] \<le> 5 * 1024 * 1024
   \<and> update_spend plain_env throttled_world (log_call (CallGenerate ''a red fox'') empty_state)
        = (None, log_call (CallGenerate ''a red fox'') empty_state)
   \<and> calls (snd (generate_and_store plain_env throttled_world empty_state
                    (keyed_post (prompt_body ''a red fox'')) ''a red fox'')) =
        [CallGenerate ''a red fox'',
         CallPut ''art/2025-11-11T10-30-00-000Z.jpg'' [0xFF, 0xD8, 0xFF, 0xD9],
         CallPut ''art/latest.jpg'' [0xFF, 0xD8, 0xFF, 0xD9]]
   \<and> status (fst (generate_and_store plain_env throttled_world empty_state
                    (keyed_post (prompt_body ''a red fox'')) ''a red fox'')) \<noteq> 200
   \<and> fst (generate_and_store plain_env throttled_world empty_state
                    (keyed_post (prompt_body ''a red fox'')) ''a red fox'')
        = catch_response (Error (Some ''put: 429 Too Many Requests''))"
proof -
  have g: "generateImage throttled_world ''a red fox'' = Inr [0xFF, 0xD8, 0xFF, 0xD9]"
    by (simp add: throttled_world_def quiet_world_def)
  have l: "length [0xFF, 0xD8, 0xFF, 0xD9 :: 8 word] \<le> 5 * 1024 * 1024"
    by simp
  have f: "fails throttled_world PutHistory = None"
    "fails throttled_world PutLatest = Some (Error (Some ''put: 429 Too Many Requests''))"
    by (simp_all add: throttled_world_def)
  have k: "historyKey throttled_world = ''art/2025-11-11T10-30-00-000Z.jpg''"
    "latestKey = ''art/latest.jpg''"
    by (simp_all add: historyKey_def latestKey_def replace_colon_dot_def throttled_world_def
          quiet_world_def)
  have c: "calls (log_call (CallGenerate ''a red fox'') empty_state) = [CallGenerate ''a red fox'']"
    by (simp add: log_call_def empty_state_def)
  show ?thesis
    using writes_after_generation [OF g l plain_update_spend surjective_pairing,
        of empty_state "keyed_post (prompt_body ''a red fox'')"]
      g plain_update_spend
    by (simp add: f k c status_200_catch_response)
qed

text \<open>
  The claim as stated fails where the failure of a write carries a message that the
  \<^verbatim>\<open>catch\<close> block reads as a provider error: the generation succeeds, the write of the
  latest artifact fails with \<^verbatim>\<open>429\<close> in its message, and the answer is 429
  \<^verbatim>\<open>ai_provider_rate_limit\<close>, not a 5xx.
\<close>

theorem failed_write_counterexample:
  "generateImage throttled_world ''a red fox'' = Inr [0xFF, 0xD8, 0xFF, 0xD9]
   \<and> fst (fetch plain_env throttled_world empty_state (keyed_post (prompt_body ''a red fox'')))
      = Inr (json_response 429
              [(''error'', ''ai_provider_rate_limit''),
               (''message'', ''AI provider is rate limiting. Please wait a moment.'')])"
proof -
  have g: "generateImage throttled_world ''a red fox'' = Inr [0xFF, 0xD8, 0xFF, 0xD9]"
    by (simp add: throttled_world_def quiet_world_def)
  have t: "trim ''a red fox'' = ''a red fox''"
    by (simp add: trim_def is_ws_def)
  have v: "validate_prompt ''a red fox'' = None"
    by (simp add: validate_prompt_def MIN_PROMPT_LENGTH_def MAX_PROMPT_LENGTH_def)
  have c: "content_filter ''a red fox'' = None"
    by (simp add: content_filter_def foundBlockedWord_def toLowerCase_def lower_char_def
          upper_case_def lower_case_def BLOCKED_WORDS_def)
  have s: "fst (generate_and_store plain_env throttled_world empty_state
                  (keyed_post (prompt_body ''a red fox'')) ''a red fox'')
             = catch_response (Error (Some ''put: 429 Too Many Requests''))"
    by (simp add: generate_and_store_def g plain_update_spend store_and_respond_def
          promise_all_rejection_def Let_def)
      (simp add: throttled_world_def)
  have "fetch plain_env throttled_world empty_state (keyed_post (prompt_body ''a red fox''))
          = prompt_stages plain_env throttled_world empty_state (keyed_post (prompt_body ''a red fox''))"
    by (rule fetch_prompt_stages [OF keyed_post_reaches])
  then have "fst (fetch plain_env throttled_world empty_state (keyed_post (prompt_body ''a red fox'')))
          = Inr (catch_response (Error (Some ''put: 429 Too Many Requests'')))"
    by (simp add: prompt_stages_string [OF keyed_post_prompt] t v c s)
  then show ?thesis
    using g by (simp add: throttled_catch_response)
qed





lemma generate_and_store_200:
  assumes "generate_and_store e w st req prompt = (r, st')" and "status r = 200"
  shows "\<exists>imageBytes.
           generateImage w prompt = Inr imageBytes
           \<and> r = json_response 200
                 [(''latestUrl'', url_origin req @ ''/art/latest.jpg''),
                  (''historyUrl'', url_origin req @ ''/'' @ historyKey w),
                  (''prompt'', prompt)]
           \<and> map_option object_body (ART st' (historyKey w)) = Some imageBytes
           \<and> map_option object_body (ART st' latestKey) = Some imageBytes"
proof (cases "generateImage w prompt")
  case (Inl err)
  then show ?thesis
    using assms status_200_catch_response [of err]
    by (auto simp: generate_and_store_def Let_def)
next
  case (Inr imageBytes)
  show ?thesis
  proof (cases "length imageBytes > 5 * 1024 * 1024")
    case True
    then show ?thesis
      using assms Inr by (auto simp: generate_and_store_def json_response_def Let_def)
  next
    case False
    then have len: "length imageBytes \<le> 5 * 1024 * 1024" by simp
    obtain x st2 where u: "update_spend e w (log_call (CallGenerate prompt) st) = (x, st2)"
      by (cases "update_spend e w (log_call (CallGenerate prompt) st)")
    show ?thesis
    proof (cases x)
      case None
      have s: "store_and_respond w st2 req prompt imageBytes = (r, st')"
        using generate_and_store_stored [OF Inr len u [unfolded None]] assms(1) by simp
      have ok: "fails w PutHistory = None \<and> fails w PutLatest = None"
      proof (rule ccontr)
        assume "\<not> (fails w PutHistory = None \<and> fails w PutLatest = None)"
        then obtain err where "r = catch_response err"
          using store_and_respond_failure [of w st2 req prompt imageBytes] s by auto
        then show False
          using assms(2) status_200_catch_response by simp
      qed
      then show ?thesis
        using store_and_respond_success [of w st2 req prompt imageBytes]
          store_and_respond_history [of w st2 req prompt imageBytes] s Inr
        by simp
    next
      case (Some err)
      then show ?thesis
        using assms Inr False u status_200_catch_response [of err]
        by (auto simp: generate_and_store_def Let_def)
    qed
  qed
qed

text \<open>
  C7. Whatever requests were served before: when a \<^verbatim>\<open>POST /api/generate\<close> is answered
  200, its \<^verbatim>\<open>historyUrl\<close> is the origin followed by \<^verbatim>\<open>/\<close> and the history key, and a
  following \<^verbatim>\<open>GET\<close> of that path and a following \<^verbatim>\<open>GET /art/latest.jpg\<close> (that the bucket
  answers) both return 200 with exactly the bytes this generation produced. After N
  generations in sequence the latest artifact is therefore the one of the Nth.
\<close>

theorem stored_image_round_trip:
  assumes "http_method req = ''POST''" and "url_pathname req = ''/api/generate''"
    and "fetch e w (run e st earlier) req = (Inr r, st')" and "status r = 200"
    and "http_method h = ''GET''" and "url_pathname h = ''/'' @ historyKey w"
    and "http_method l = ''GET''" and "url_pathname l = ''/art/latest.jpg''"
    and "fails w2 ArtGet = None"
  shows "\<exists>prompt imageBytes.
           generateImage w prompt = Inr imageBytes
           \<and> body r = Json [(''latestUrl'', url_origin req @ ''/art/latest.jpg''),
                             (''historyUrl'', url_origin req @ ''/'' @ historyKey w),
                             (''prompt'', prompt)]
           \<and> (\<exists>r2. fst (fetch e w2 st' h) = Inr r2 \<and> status r2 = 200
                       \<and> body r2 = Bytes imageBytes)
           \<and> (\<exists>r3. fst (fetch e w2 st' l) = Inr r3 \<and> status r3 = 200
                       \<and> body r3 = Bytes imageBytes)"
proof -
  have "handle_generate e w (run e st earlier) req = (Inr r, st')"
    using assms(1-3) by (simp add: fetch_def)
  then obtain st1 prompt where "generate_and_store e w st1 req prompt = (r, st')"
    using handle_generate_200_stages assms(4) by blast
  then obtain imageBytes where g: "generateImage w prompt = Inr imageBytes"
    and r: "r = json_response 200
                 [(''latestUrl'', url_origin req @ ''/art/latest.jpg''),
                  (''historyUrl'', url_origin req @ ''/'' @ historyKey w),
                  (''prompt'', prompt)]"
    and hist: "map_option object_body (ART st' (historyKey w)) = Some imageBytes"
    and latest: "map_option object_body (ART st' latestKey) = Some imageBytes"
    using generate_and_store_200 assms(4) by blast
  have served: "\<exists>r2. fst (fetch e w2 st' g) = Inr r2 \<and> status r2 = 200 \<and> body r2 = Bytes imageBytes"
    if "http_method g = ''GET''" and "url_pathname g = ''/'' @ key"
      and "startsWith key ''art/''" and "map_option object_body (ART st' key) = Some imageBytes"
    for g key
    using that assms(9)
    by (auto simp: fetch_def serve_art_def Let_def split: option.splits)
  have "\<exists>r2. fst (fetch e w2 st' h) = Inr r2 \<and> status r2 = 200 \<and> body r2 = Bytes imageBytes"
    using served [OF assms(5,6) _ hist] by (simp add: historyKey_def)
  moreover have "\<exists>r3. fst (fetch e w2 st' l) = Inr r3 \<and> status r3 = 200 \<and> body r3 = Bytes imageBytes"
    using served [OF assms(7), of latestKey] assms(8) latest by (simp add: latestKey_def)
  ultimately show ?thesis using g r by (auto simp: json_response_def)
qed

lemma later_fetch:
  "fetch plain_env later_world st (keyed_post (prompt_body ''a red fox'')) =
     (Inr (json_response 200
             [(''latestUrl'', ''https://gallery.example/art/latest.jpg''),
              (''historyUrl'', ''https://gallery.example/art/2025-11-11T10-31-00-000Z.jpg''),
              (''prompt'', ''a red fox'')]),
      snd (fetch plain_env later_world st (keyed_post (prompt_body ''a red fox''))))"
proof -
  have t: "trim ''a red fox'' = ''a red fox''"
    by (simp add: trim_def is_ws_def)
  have v: "validate_prompt ''a red fox'' = None"
    by (simp add: validate_prompt_def MIN_PROMPT_LENGTH_def MAX_PROMPT_LENGTH_def)
  have c: "content_filter ''a red fox'' = None"
    by (simp add: content_filter_def foundBlockedWord_def toLowerCase_def lower_char_def
          upper_case_def lower_case_def BLOCKED_WORDS_def)
  have g: "fst (generate_and_store plain_env later_world st
                  (keyed_post (prompt_body ''a red fox'')) ''a red fox'') =
             json_response 200
             [(''latestUrl'', ''https://gallery.example/art/latest.jpg''),
              (''historyUrl'', ''https://gallery.example/art/2025-11-11T10-31-00-000Z.jpg''),
              (''prompt'', ''a red fox'')]"
    by (simp add: generate_and_store_def update_spend_def upstash_configured_def
          store_and_respond_def promise_all_rejection_def historyKey_def replace_colon_dot_def
          url_origin_def keyed_post_def sample_request_def
          Let_def plain_env_def later_world_def quiet_world_def)
  have "fetch plain_env later_world st (keyed_post (prompt_body ''a red fox''))
          = prompt_stages plain_env later_world st (keyed_post (prompt_body ''a red fox''))"
    by (rule fetch_prompt_stages [OF keyed_post_reaches])
  then show ?thesis
    by (simp add: prompt_stages_string [OF keyed_post_prompt] t v c g)
qed

theorem stored_image_round_trip_witness:
  "fetch plain_env later_world
      (run plain_env empty_state [(quiet_world, keyed_post (prompt_body ''the first picture''))])
      (keyed_post (prompt_body ''a red fox'')) =
     (Inr (json_response 200
             [(''latestUrl'', ''https://gallery.example/art/latest.jpg''),
              (''historyUrl'', ''https://gallery.example/art/2025-11-11T10-31-00-000Z.jpg''),
              (''prompt'', ''a red fox'')]),
      snd (fetch plain_env later_world
            (run plain_env empty_state [(quiet_world, keyed_post (prompt_body ''the first picture''))])
            (keyed_post (prompt_body ''a red fox''))))
   \<and> (\<exists>r2. fst (fetch plain_env quiet_world
                  (snd (fetch plain_env later_world
                         (run plain_env empty_state
                            [(quiet_world, keyed_post (prompt_body ''the first picture''))])
                         (keyed_post (prompt_body ''a red fox''))))
                  (sample_request ''GET'' ''/art/2025-11-11T10-31-00-000Z.jpg'' None None None))
               = Inr r2 \<and> status r2 = 200 \<and> body r2 = Bytes [0x4A, 0x46])
   \<and> (\<exists>r3. fst (fetch plain_env quiet_world
                  (snd (fetch plain_env later_world
                         (run plain_env empty_state
                            [(quiet_world, keyed_post (prompt_body ''the first picture''))])
                         (keyed_post (prompt_body ''a red fox''))))
                  (sample_request ''GET'' ''/art/latest.jpg'' None None None))
               = Inr r3 \<and> status r3 = 200 \<and> body r3 = Bytes [0x4A, 0x46])"
proof -
  have k: "historyKey later_world = ''art/2025-11-11T10-31-00-000Z.jpg''"
    by (simp add: historyKey_def replace_colon_dot_def later_world_def quiet_world_def)
  have get: "http_method (sample_request ''GET'' path None None None) = ''GET''"
    "url_pathname (sample_request ''GET'' path None None None) = path" for path
    by (simp_all add: sample_request_def)
  have h: "url_pathname (sample_request ''GET'' ''/art/2025-11-11T10-31-00-000Z.jpg'' None None None)
             = ''/'' @ historyKey later_world"
    by (simp add: get k)
  have q: "fails quiet_world ArtGet = None"
    by (simp add: quiet_world_def)
  have s: "status (json_response 200 m) = 200" for m
    by (simp add: json_response_def)
  have b: "generateImage later_world prompt = Inr imageBytes \<longleftrightarrow> imageBytes = [0x4A, 0x46]"
    for prompt imageBytes
    by (auto simp: later_world_def)
  let ?before = "run plain_env empty_state
                   [(quiet_world, keyed_post (prompt_body ''the first picture''))]"
  show ?thesis
    using stored_image_round_trip
      [OF keyed_post_reaches(1,2) later_fetch [of ?before] s get(1) h get(1) get(2) q]
      later_fetch [of ?before]
    by (auto simp: b)
qed

text \<open>
  C8. Every \<^verbatim>\<open>OPTIONS\<close> request, whatever its path, is answered 204 without a body and
  with the four fixed CORS headers, before any route is looked at and without a call of a
  collaborator: this is the first branch of the handler of the second worker source.
\<close>

theorem options_preflight:
  assumes "http_method req = ''OPTIONS''"
  shows "fetch_with_preflight routes st req =
     (Inr \<lparr>status = 204,
            headers = [(''Access-Control-Allow-Origin'', ''*''),
                       (''Access-Control-Allow-Methods'', ''GET, POST, OPTIONS''),
                       (''Access-Control-Allow-Headers'', ''Content-Type, X-API-Key''),
                       (''Access-Control-Max-Age'', ''86400'')],
            body = NoBody\<rparr>, st)"
  using assms by (simp add: fetch_with_preflight_def cors_preflight_def)

theorem options_preflight_witness:
  "http_method (sample_request ''OPTIONS'' ''/api/generate'' (Some ''https://app.example'') None None)
     = ''OPTIONS''
   \<and> fetch_with_preflight (fetch plain_env quiet_world empty_state) empty_state
        (sample_request ''OPTIONS'' ''/api/generate'' (Some ''https://app.example'') None None)
      = (Inr \<lparr>status = 204,
              headers = [(''Access-Control-Allow-Origin'', ''*''),
                         (''Access-Control-Allow-Methods'', ''GET, POST, OPTIONS''),
                         (''Access-Control-Allow-Headers'', ''Content-Type, X-API-Key''),
                         (''Access-Control-Max-Age'', ''86400'')],
              body = NoBody\<rparr>, empty_state)"
  using options_preflight
    [of "sample_request ''OPTIONS'' ''/api/generate'' (Some ''https://app.example'') None None"
        "fetch plain_env quiet_world empty_state" empty_state]
  by (simp add: sample_request_def)

text \<open>
  The handler of \<^verbatim>\<open>src/worker.js\<close> is the same pipeline without this branch and without
  the later routes of the second source: on its own it answers an \<^verbatim>\<open>OPTIONS\<close> request
  with the default 404.
\<close>

lemma options_without_preflight:
  assumes "http_method req = ''OPTIONS''"
  shows "fetch e w st req = (Inr \<lparr>status = 404, headers = [], body = Text ''Not found''\<rparr>, st)"
  using assms by (simp add: fetch_def)

text \<open>
  C9. A \<^verbatim>\<open>POST /api/generate\<close> request without a \<^verbatim>\<open>content-length\<close> header passes the size
  check whatever its body is: the 10,000-byte cap is applied to the declared length only,
  so without the header no run of the handler answers \<^verbatim>\<open>request_too_large\<close> (413).
\<close>

theorem size_check_needs_content_length:
  assumes "content_length req = None"
  shows "size_check req = None
         \<and> fst (fetch e w st req) \<noteq> Inr (json_response 413
               [(''error'', ''request_too_large''),
                (''message'', ''Request body exceeds 10KB limit'')])
         \<and> (case fst (fetch e w st req) of Inl err \<Rightarrow> True | Inr r \<Rightarrow> status r \<noteq> 413)"
proof -
  have a: "size_check req = None"
    using assms by (simp add: size_check_def)
  have b: "status r \<noteq> 413" if "fst (fetch e w st req) = Inr r" for r
    using status_fetch [OF a that] by auto
  have c: "fst (fetch e w st req) \<noteq> Inr (json_response 413 m)" for m
    using b [of "json_response 413 m"] by (auto simp: json_response_def)
  show ?thesis using a b c by (simp split: sum.splits)
qed

theorem size_check_needs_content_length_witness:
  "content_length (sample_request ''POST'' ''/api/generate'' None None None) = None
   \<and> size_check (sample_request ''POST'' ''/api/generate'' None None None) = None
   \<and> fst (fetch plain_env quiet_world empty_state
             (sample_request ''POST'' ''/api/generate'' None None None))
       \<noteq> Inr (json_response 413
               [(''error'', ''request_too_large''),
                (''message'', ''Request body exceeds 10KB limit'')])"
  using size_check_needs_content_length
    [of "sample_request ''POST'' ''/api/generate'' None None None" plain_env quiet_world empty_state]
  by (simp add: sample_request_def)

lemma or_empty_trim_throws:
  "(\<exists>err. or_empty_trim v = Inl err) \<longleftrightarrow>
   (\<exists>x. v = Some x \<and> js_truthy x \<and> (\<forall>s. x \<noteq> JString s))"
  by (cases v rule: or_empty_trim.cases) auto

lemma or_empty_trim_error:
  "or_empty_trim v = Inl err \<Longrightarrow> err = TypeError (Some ''trim is not a function'')"
  by (cases v rule: or_empty_trim.cases) (auto split: if_splits)

lemma prompt_stages_object:
  assumes "json_body req = Some (JObject members)"
  shows "prompt_stages e w st req =
     (case or_empty_trim (map_of members ''prompt'') of
        Inl err \<Rightarrow> (Inl err, st)
      | Inr prompt \<Rightarrow>
          (case validate_prompt prompt of
             Some r \<Rightarrow> (Inr r, st)
           | None \<Rightarrow>
               (case content_filter prompt of
                  Some r \<Rightarrow> (Inr r, st)
                | None \<Rightarrow> (Inr (fst (generate_and_store e w st req prompt)),
                            snd (generate_and_store e w st req prompt)))))"
  using assms
  by (simp add: prompt_stages_def extract_prompt_def split_beta split: option.splits sum.splits)

text \<open>
  C10. For a request that reaches the prompt stage with a JSON object as body: if the
  \<^verbatim>\<open>prompt\<close> member is truthy and not a string (a number other than 0, \<^verbatim>\<open>true\<close>, an
  array, an object), the handler throws a \<^verbatim>\<open>TypeError\<close> at the \<^verbatim>\<open>trim\<close> call, outside any
  \<^verbatim>\<open>try\<close>, and returns no response; for a string, a missing or a falsy member it returns
  a response.
\<close>

theorem non_string_prompt_throws:
  assumes "http_method req = ''POST''" and "url_pathname req = ''/api/generate''"
    and "size_check req = None" and "authenticate e req = None"
    and "rate_limit e w st req = (Next (), st1)"
    and "json_body req = Some (JObject members)"
  shows "(if \<exists>v. map_of members ''prompt'' = Some v \<and> js_truthy v \<and> (\<forall>s. v \<noteq> JString s)
          then fetch e w st req = (Inl (TypeError (Some ''trim is not a function'')), st1)
          else \<exists>r. fst (fetch e w st req) = Inr r)"
proof -
  have f: "fetch e w st req = prompt_stages e w st1 req"
    using fetch_prompt_stages [OF assms(1-5)] .
  show ?thesis
  proof (cases "\<exists>v. map_of members ''prompt'' = Some v \<and> js_truthy v \<and> (\<forall>s. v \<noteq> JString s)")
    case True
    then obtain err where err: "or_empty_trim (map_of members ''prompt'') = Inl err"
      using or_empty_trim_throws by blast
    then have "err = TypeError (Some ''trim is not a function'')"
      by (rule or_empty_trim_error)
    then show ?thesis
      using True err f by (simp add: prompt_stages_object [OF assms(6)])
  next
    case False
    then have "\<not> (\<exists>err. or_empty_trim (map_of members ''prompt'') = Inl err)"
      using or_empty_trim_throws by blast
    then obtain prompt where "or_empty_trim (map_of members ''prompt'') = Inr prompt"
      by (cases "or_empty_trim (map_of members ''prompt'')") auto
    then have "\<exists>r. fst (prompt_stages e w st1 req) = Inr r"
      by (simp add: prompt_stages_object [OF assms(6)] split: option.splits)
    then have "\<exists>r. fst (fetch e w st req) = Inr r"
      using f by simp
    then show ?thesis by (simp only: False if_False)
  qed
qed

theorem non_string_prompt_throws_witness:
  "fetch plain_env quiet_world empty_state (keyed_post (JObject [(''prompt'', JNumber 42)]))
     = (Inl (TypeError (Some ''trim is not a function'')), empty_state)
   \<and> (\<exists>r. fst (fetch plain_env quiet_world empty_state
                  (keyed_post (JObject [(''prompt'', JNumber 0)]))) = Inr r)"
proof -
  have b: "json_body (keyed_post (JObject ms)) = Some (JObject ms)" for ms
    by (simp add: keyed_post_def sample_post_route)
  show ?thesis
    using non_string_prompt_throws [OF keyed_post_reaches b,
        where members = "[(''prompt'', JNumber 42)]" and w = quiet_world and st = empty_state]
      non_string_prompt_throws [OF keyed_post_reaches b,
        where members = "[(''prompt'', JNumber 0)]" and w = quiet_world and st = empty_state]
    by simp
qed

end
